theory Spec2Isabelle
  imports Complex_Main
begin

section \<open>Strings and paths\<close>

text \<open>
  A JavaScript string is modelled as a \<^typ>\<open>string\<close>: one \<^typ>\<open>char\<close> per code unit,
  for the code units \<open>0x00\<close> to \<open>0xFF\<close>. The functions below are the methods of
  \<open>String.prototype\<close> and of Node's \<open>path\<close> module (POSIX flavour) that
  \<open>server.js\<close> calls.
\<close>

fun startsWith :: "string \<Rightarrow> string \<Rightarrow> bool" where
  "startsWith s [] = True"
| "startsWith [] (p # ps) = False"
| "startsWith (c # cs) (p # ps) = (c = p \<and> startsWith cs ps)"

definition endsWith :: "string \<Rightarrow> string \<Rightarrow> bool" where
  "endsWith s p = startsWith (rev s) (rev p)"

text \<open>\<open>s.includes(p)\<close>: \<open>p\<close> occurs in \<open>s\<close> as a contiguous substring.\<close>

fun includes_str :: "string \<Rightarrow> string \<Rightarrow> bool" where
  "includes_str [] p = (p = [])"
| "includes_str (c # cs) p = (startsWith (c # cs) p \<or> includes_str cs p)"

text \<open>
  White space as \<open>trim\<close> sees it, within the modelled range of code units: tab, line
  feed, vertical tab, form feed, carriage return, space and the no-break space.
\<close>

definition isWhiteSpace :: "char \<Rightarrow> bool" where
  "isWhiteSpace c = (c \<in> set [CHR 0x09, CHR 0x0A, CHR 0x0B, CHR 0x0C, CHR 0x0D, CHR '' '', CHR 0xA0])"

definition trim :: "string \<Rightarrow> string" where
  "trim s = rev (dropWhile isWhiteSpace (rev (dropWhile isWhiteSpace s)))"

text \<open>
  \<open>toLowerCase\<close> on the modelled range: the letters A to Z, and the upper-case letters
  of the Latin-1 block (\<open>0xC0\<close> to \<open>0xDE\<close> without the multiplication sign \<open>0xD7\<close>),
  move up by 32; every other code unit stays.
\<close>

definition lowerChar :: "char \<Rightarrow> char" where
  "lowerChar c =
     (let n = (of_char c :: nat)
      in if (65 \<le> n \<and> n \<le> 90) \<or> (192 \<le> n \<and> n \<le> 222 \<and> n \<noteq> 215)
         then char_of (n + 32) else c)"

definition toLowerCase :: "string \<Rightarrow> string" where
  "toLowerCase s = map lowerChar s"

text \<open>\<open>content.split('\n')\<close>: the pieces between line feeds; never an empty list.\<close>

fun split_lines :: "string \<Rightarrow> string list" where
  "split_lines [] = [[]]"
| "split_lines (c # cs) =
     (if c = CHR 0x0A then [] # split_lines cs
      else (case split_lines cs of
              [] \<Rightarrow> [[c]]
            | l # ls \<Rightarrow> (c # l) # ls))"

text \<open>
  \<open>path.basename\<close>: trailing separators are dropped, then the part after the last
  separator is taken.
\<close>

definition basename :: "string \<Rightarrow> string" where
  "basename p =
     rev (takeWhile (\<lambda>c. c \<noteq> CHR ''/'') (dropWhile (\<lambda>c. c = CHR ''/'') (rev p)))"

text \<open>
  \<open>path.extname\<close>: from the last dot of the base name to its end; empty when the base
  name has no dot, when its only dot is its first character, or when it is \<open>..\<close>.
\<close>

definition extname :: "string \<Rightarrow> string" where
  "extname p =
     (let b = basename p;
          ext = rev (takeWhile (\<lambda>c. c \<noteq> CHR ''.'') (rev b));
          pre = rev (drop (Suc (length ext)) (rev b))
      in if CHR ''.'' \<in> set b \<and> pre \<noteq> [] \<and> b \<noteq> ''..'' then CHR ''.'' # ext else [])"

text \<open>\<open>p.split('/')\<close>: the pieces between separators; never an empty list.\<close>

fun split_sep :: "string \<Rightarrow> string list" where
  "split_sep [] = [[]]"
| "split_sep (c # cs) =
     (if c = CHR ''/'' then [] # split_sep cs
      else (case split_sep cs of
              [] \<Rightarrow> [[c]]
            | s # ss \<Rightarrow> (c # s) # ss))"

text \<open>\<open>segments.join('/')\<close>.\<close>

fun joinWith :: "string list \<Rightarrow> string" where
  "joinWith [] = []"
| "joinWith [s] = s"
| "joinWith (s # t # ts) = s @ ''/'' @ joinWith (t # ts)"

text \<open>
  The segment walk of \<open>path.normalize\<close>: empty segments and \<open>.\<close> are dropped; \<open>..\<close>
  removes the segment before it, and where there is none to remove it is kept for a
  relative path (\<open>allowAboveRoot\<close>) and dropped for an absolute one. \<open>res\<close> holds the
  segments kept so far, the last one first.
\<close>

fun normalizeSegments :: "bool \<Rightarrow> string list \<Rightarrow> string list \<Rightarrow> string list" where
  "normalizeSegments allowAboveRoot res [] = rev res"
| "normalizeSegments allowAboveRoot res (seg # rest) =
     (if seg = [] \<or> seg = ''.'' then normalizeSegments allowAboveRoot res rest
      else if seg = ''..'' then
        (case res of
           [] \<Rightarrow>
             if allowAboveRoot then normalizeSegments allowAboveRoot [''..''] rest
             else normalizeSegments allowAboveRoot [] rest
         | kept # others \<Rightarrow>
             if kept = ''..'' then
               (if allowAboveRoot then normalizeSegments allowAboveRoot (''..'' # res) rest
                else normalizeSegments allowAboveRoot res rest)
             else normalizeSegments allowAboveRoot others rest)
      else normalizeSegments allowAboveRoot (seg # res) rest)"

text \<open>\<open>path.normalize\<close>: a trailing separator is kept, the empty result is \<open>.\<close>.\<close>

definition path_normalize :: "string \<Rightarrow> string" where
  "path_normalize p =
     (if p = [] then ''.''
      else
        (let isAbsolute = startsWith p ''/'';
             trailingSeparator = endsWith p ''/'';
             body = joinWith (normalizeSegments (\<not> isAbsolute) [] (split_sep p))
         in if body = [] then
              (if isAbsolute then ''/'' else if trailingSeparator then ''./'' else ''.'')
            else (if isAbsolute then ''/'' else []) @ body
                 @ (if trailingSeparator then ''/'' else [])))"

text \<open>
  \<open>path.join(dir, name)\<close>: the arguments that are not empty, joined with a separator
  and normalised.
\<close>

definition path_join :: "string \<Rightarrow> string \<Rightarrow> string" where
  "path_join dir name =
     (let joined = (if dir = [] then name
                    else if name = [] then dir
                    else dir @ ''/'' @ name)
      in if joined = [] then ''.'' else path_normalize joined)"

text \<open>
  \<open>path.relative(from, to)\<close> for the paths the walk builds, where \<open>to\<close> is \<open>from\<close>
  itself or lies below it: the result is what follows \<open>from\<close> and the separator
  after it. For a path outside \<open>from\<close>, \<open>path.relative\<close> would climb with \<open>..\<close>;
  the walk never asks for that, and such a path is returned as it is.
\<close>

definition path_relative :: "string \<Rightarrow> string \<Rightarrow> string" where
  "path_relative base target =
     (let prefix = (if endsWith base ''/'' then base else base @ ''/'')
      in if target = base then []
         else if startsWith target prefix then drop (length prefix) target
         else target)"



section \<open>LineClassifier: \<open>CodeCounter.countLines\<close>\<close>

record lineStats =
  ls_total :: nat
  ls_code :: nat
  ls_comments :: nat
  ls_blank :: nat

text \<open>The local variables of \<open>countLines\<close> that the loop over the lines updates.\<close>

record counters =
  codeLines :: nat
  commentLines :: nat
  blankLines :: nat
  inMultiLineComment :: bool

text \<open>
  The body of the \<open>for (let line of lines)\<close> loop, one branch per \<open>continue\<close> of the
  source, in the source's order.
\<close>

definition countLine :: "bool \<Rightarrow> bool \<Rightarrow> string \<Rightarrow> string \<Rightarrow> counters \<Rightarrow> counters" where
  "countLine isJsLike isCssLike ext line st =
     (let trimmedLine = trim line
      in if trimmedLine = [] then st\<lparr>blankLines := blankLines st + 1\<rparr>
         else if (isJsLike \<or> isCssLike) \<and> inMultiLineComment st then
           (let st1 = st\<lparr>commentLines := commentLines st + 1\<rparr>
            in if includes_str trimmedLine ''*/'' then st1\<lparr>inMultiLineComment := False\<rparr> else st1)
         else if (isJsLike \<or> isCssLike) \<and> startsWith trimmedLine ''/*'' then
           (let st1 = st\<lparr>commentLines := commentLines st + 1\<rparr>
            in if \<not> includes_str trimmedLine ''*/'' then st1\<lparr>inMultiLineComment := True\<rparr> else st1)
         else if (isJsLike \<and> startsWith trimmedLine ''//'')
               \<or> (isCssLike \<and> startsWith trimmedLine ''/*'')
               \<or> (ext \<in> set [''.html''] \<and> startsWith trimmedLine ''<!--'')
           then st\<lparr>commentLines := commentLines st + 1\<rparr>
         else st\<lparr>codeLines := codeLines st + 1\<rparr>)"

fun countLoop :: "bool \<Rightarrow> bool \<Rightarrow> string \<Rightarrow> string list \<Rightarrow> counters \<Rightarrow> counters" where
  "countLoop isJsLike isCssLike ext [] st = st"
| "countLoop isJsLike isCssLike ext (line # rest) st =
     countLoop isJsLike isCssLike ext rest (countLine isJsLike isCssLike ext line st)"

definition isJsLikeExt :: "string \<Rightarrow> bool" where
  "isJsLikeExt ext = (ext \<in> set [''.js'', ''.jsx'', ''.ts'', ''.tsx'', ''.vue''])"

definition isCssLikeExt :: "string \<Rightarrow> bool" where
  "isCssLikeExt ext = (ext \<in> set [''.css'', ''.scss'', ''.sass'', ''.less''])"

definition counters0 :: counters where
  "counters0 = \<lparr>codeLines = 0, commentLines = 0, blankLines = 0, inMultiLineComment = False\<rparr>"

definition countLines :: "string \<Rightarrow> string \<Rightarrow> lineStats" where
  "countLines content filePath =
     (let lines = split_lines content;
          ext = toLowerCase (extname filePath);
          st = countLoop (isJsLikeExt ext) (isCssLikeExt ext) ext lines counters0
      in \<lparr>ls_total = length lines, ls_code = codeLines st,
          ls_comments = commentLines st, ls_blank = blankLines st\<rparr>)"

section \<open>FrameworkCatalog: \<open>FRAMEWORKS\<close> and the ignore sets\<close>

text \<open>
  One signature of the catalog. The \<open>icon\<close> glyph of the source is left out: no
  function of the model reads it. Every category pattern of the source is a regular
  expression of the shape \<open>/\/(a|b|c)\//\<close>; it is kept as the list of its
  alternatives, and \<open>pattern_test\<close> is its \<open>test\<close> method: the path contains one
  of the alternatives between two separators.
\<close>

record framework =
  fw_name :: string
  fw_patterns :: "string list"
  fw_packageIndicators :: "string list"
  fw_directories :: "string list"
  fw_categories :: "(string \<times> string list) list"

definition pattern_test :: "string list \<Rightarrow> string \<Rightarrow> bool" where
  "pattern_test alternatives filePath =
     list_ex (\<lambda>a. includes_str filePath (''/'' @ a @ ''/'')) alternatives"

definition nextjs :: framework where
  "nextjs = \<lparr>fw_name = ''Next.js'',
     fw_patterns = [''next.config.js'', ''next.config.ts'', ''next.config.mjs''],
     fw_packageIndicators = [''next''],
     fw_directories = [''pages'', ''app''],
     fw_categories =
       [(''pages'', [''pages'', ''app'']),
        (''components'', [''components'', ''ui'']),
        (''api'', [''api'']),
        (''hooks'', [''hooks'', ''composables'']),
        (''utils'', [''utils'', ''lib'', ''helpers'']),
        (''styles'', [''styles'', ''css'']),
        (''types'', [''types'', ''interfaces'']),
        (''config'', [''config'', ''constants'']),
        (''public'', [''public''])]\<rparr>"

definition nuxtjs :: framework where
  "nuxtjs = \<lparr>fw_name = ''Nuxt.js'',
     fw_patterns = [''nuxt.config.js'', ''nuxt.config.ts''],
     fw_packageIndicators = [''nuxt'', ''@nuxt/''],
     fw_directories = [''pages'', ''components'', ''layouts''],
     fw_categories =
       [(''pages'', [''pages'']),
        (''components'', [''components'']),
        (''layouts'', [''layouts'']),
        (''plugins'', [''plugins'']),
        (''middleware'', [''middleware'']),
        (''composables'', [''composables'']),
        (''utils'', [''utils'', ''lib'']),
        (''assets'', [''assets'']),
        (''static'', [''static'', ''public'']),
        (''server'', [''server''])]\<rparr>"

definition vue :: framework where
  "vue = \<lparr>fw_name = ''Vue.js'',
     fw_patterns = [''vue.config.js'', ''vite.config.js'', ''vite.config.ts''],
     fw_packageIndicators = [''vue'', ''@vue/''],
     fw_directories = [''src''],
     fw_categories =
       [(''components'', [''components'', ''views'']),
        (''router'', [''router'']),
        (''store'', [''store'', ''stores'']),
        (''composables'', [''composables'', ''hooks'']),
        (''utils'', [''utils'', ''lib'', ''helpers'']),
        (''assets'', [''assets'']),
        (''styles'', [''styles'', ''css'']),
        (''types'', [''types'', ''interfaces''])]\<rparr>"

definition react :: framework where
  "react = \<lparr>fw_name = ''React'',
     fw_patterns = [''src/App.js'', ''src/App.tsx'', ''src/index.js'', ''src/index.tsx''],
     fw_packageIndicators = [''react''],
     fw_directories = [''src''],
     fw_categories =
       [(''components'', [''components'', ''ui'']),
        (''pages'', [''pages'', ''views'', ''screens'']),
        (''hooks'', [''hooks'']),
        (''context'', [''context'', ''providers'']),
        (''utils'', [''utils'', ''lib'', ''helpers'']),
        (''assets'', [''assets'']),
        (''styles'', [''styles'', ''css'']),
        (''types'', [''types'', ''interfaces'']),
        (''services'', [''services'', ''api''])]\<rparr>"

text \<open>\<open>Object.entries(FRAMEWORKS)\<close>: the signatures in the order of the literal.\<close>

definition FRAMEWORKS :: "framework list" where
  "FRAMEWORKS = [nextjs, nuxtjs, vue, react]"

definition CODE_EXTENSIONS :: "string list" where
  "CODE_EXTENSIONS =
     [''.js'', ''.jsx'', ''.ts'', ''.tsx'', ''.vue'', ''.svelte'',
      ''.html'', ''.css'', ''.scss'', ''.sass'', ''.less'',
      ''.json'', ''.graphql'', ''.md'', ''.mdx'']"

definition IGNORE_DIRS :: "string list" where
  "IGNORE_DIRS =
     [''node_modules'', ''.git'', ''.next'', ''.nuxt'', ''dist'', ''build'',
      ''.output'', ''coverage'', ''.nyc_output'', ''.vscode'', ''.idea'',
      ''__pycache__'', ''.pytest_cache'', ''logs'', ''.cache'',
      ''public'', ''static'', ''assets'']"

definition IGNORE_FILES :: "string list" where
  "IGNORE_FILES =
     [''package-lock.json'', ''yarn.lock'', ''pnpm-lock.yaml'',
      ''.gitignore'', ''.env'', ''.env.local'', ''.env.example'',
      ''next.config.js'', ''nuxt.config.js'', ''vue.config.js'',
      ''tailwind.config.js'', ''postcss.config.js'', ''vite.config.js'']"

section \<open>The file system and the manifest\<close>

text \<open>
  The directory tree the scans read. \<open>fs.readFile\<close> gives a text or throws;
  \<open>fs.readdir\<close> gives the entries of a directory or throws. An entry is a regular
  file (\<open>isFile()\<close>), a directory (\<open>isDirectory()\<close>) or anything else (a symbolic
  link, a socket), which \<open>readFile\<close> can still follow.
\<close>

datatype read = Content string | ReadError string

datatype listing = Entries "dirent list" | ReaddirError string
  and dirent = File string read | Directory string listing | Other string read

fun ent_name :: "dirent \<Rightarrow> string" where
  "ent_name (File n r) = n"
| "ent_name (Directory n l) = n"
| "ent_name (Other n r) = n"

text \<open>\<open>fs.readFile\<close> of the entry called \<open>name\<close> in a directory with these entries.\<close>

fun readFile :: "dirent list \<Rightarrow> string \<Rightarrow> read" where
  "readFile [] name = ReadError ''ENOENT''"
| "readFile (File n r # es) name = (if n = name then r else readFile es name)"
| "readFile (Directory n l # es) name =
     (if n = name then ReadError ''EISDIR'' else readFile es name)"
| "readFile (Other n r # es) name = (if n = name then r else readFile es name)"

text \<open>
  The values \<open>JSON.parse\<close> returns. \<open>JSON.parse\<close> itself belongs to the runtime: the
  detector takes it as the parameter \<open>parse\<close>, \<open>None\<close> when it throws.
\<close>

datatype json =
  JNull | JBool bool | JNum rat | JStr string | JArr "json list" | JObj "(string \<times> json) list"

fun truthy :: "json \<Rightarrow> bool" where
  "truthy JNull = False"
| "truthy (JBool b) = b"
| "truthy (JNum n) = (n \<noteq> 0)"
| "truthy (JStr s) = (s \<noteq> [])"
| "truthy (JArr xs) = True"
| "truthy (JObj kvs) = True"

text \<open>\<open>v.key\<close> on a parsed value: \<open>None\<close> is \<open>undefined\<close>.\<close>

fun getProp :: "json \<Rightarrow> string \<Rightarrow> json option" where
  "getProp (JObj kvs) key = map_of kvs key"
| "getProp v key = None"

function showNat :: "nat \<Rightarrow> string" where
  "showNat n =
     (if n < 10 then [char_of (48 + n)]
      else showNat (n div 10) @ [char_of (48 + n mod 10)])"
  by pat_completeness auto
termination
  by (relation "measure (\<lambda>n. n)") auto

text \<open>
  The keys that \<open>{...v}\<close> copies: the own keys of an object, the indices of an array
  or of a string, none for \<open>undefined\<close>, \<open>null\<close>, a number or a boolean.
\<close>

fun spreadKeys :: "json option \<Rightarrow> string list" where
  "spreadKeys (Some (JObj kvs)) = map fst kvs"
| "spreadKeys (Some (JArr xs)) = map showNat [0..<length xs]"
| "spreadKeys (Some (JStr s)) = map showNat [0..<length s]"
| "spreadKeys v = []"

section \<open>FrameworkDetector: \<open>ProjectScanner.detectFramework\<close>\<close>

text \<open>The body of the loop over the catalog: the three tests of one signature.\<close>

definition frameworkMatches :: "string list \<Rightarrow> json option \<Rightarrow> framework \<Rightarrow> bool" where
  "frameworkMatches files packageJson fw =
     (let hasConfigFile = list_ex (\<lambda>pattern. basename pattern \<in> set files) (fw_patterns fw);
          hasPackageDep =
            (case packageJson of
               None \<Rightarrow> False
             | Some pj \<Rightarrow>
                 if truthy pj then
                   (let allDeps = spreadKeys (getProp pj ''dependencies'')
                                  @ spreadKeys (getProp pj ''devDependencies'')
                    in list_ex (\<lambda>indicator. list_ex (\<lambda>dep. includes_str dep indicator) allDeps)
                         (fw_packageIndicators fw))
                 else False);
          hasTypicalDirs = list_ex (\<lambda>dir. dir \<in> set files) (fw_directories fw)
      in hasConfigFile \<or> hasPackageDep \<or> hasTypicalDirs)"

definition detectFramework :: "(string \<Rightarrow> json option) \<Rightarrow> listing \<Rightarrow> framework option" where
  "detectFramework parse dir =
     (case dir of
        ReaddirError e \<Rightarrow> None
      | Entries entries \<Rightarrow>
          (let files = map ent_name entries;
               packageJson = (case readFile entries ''package.json'' of
                                Content packageContent \<Rightarrow> parse packageContent
                              | ReadError e \<Rightarrow> None)
           in find (frameworkMatches files packageJson) FRAMEWORKS))"

section \<open>ProjectScanner\<close>

record project =
  p_name :: string
  p_path :: string
  p_framework :: framework

text \<open>
  \<open>ProjectScanner.scanDirectory\<close>, with \<open>this.projects\<close> passed in and returned.
  The second function is the loop over the entries, one equation per kind of entry.
  A \<open>readdir\<close> that throws is caught and leaves the list as it is.
\<close>

fun PS_scanDirectory ::
    "(string \<Rightarrow> json option) \<Rightarrow> string \<Rightarrow> nat \<Rightarrow> nat \<Rightarrow> listing \<Rightarrow> project list \<Rightarrow> project list"
  and PS_scanEntries ::
    "(string \<Rightarrow> json option) \<Rightarrow> string \<Rightarrow> nat \<Rightarrow> nat \<Rightarrow> dirent list \<Rightarrow> project list \<Rightarrow> project list"
where
  "PS_scanDirectory parse dirPath currentDepth maxDepth dir projects =
     (if currentDepth \<ge> maxDepth then projects
      else (case dir of
              ReaddirError e \<Rightarrow> projects
            | Entries entries \<Rightarrow>
                PS_scanEntries parse dirPath currentDepth maxDepth entries
                  (case detectFramework parse dir of
                     Some framework \<Rightarrow>
                       projects @ [\<lparr>p_name = basename dirPath, p_path = dirPath,
                                     p_framework = framework\<rparr>]
                   | None \<Rightarrow> projects)))"
| "PS_scanEntries parse dirPath currentDepth maxDepth [] projects = projects"
| "PS_scanEntries parse dirPath currentDepth maxDepth (Directory name sub # rest) projects =
     PS_scanEntries parse dirPath currentDepth maxDepth rest
       (if name \<notin> set IGNORE_DIRS \<and> \<not> startsWith name ''.''
        then PS_scanDirectory parse (path_join dirPath name) (currentDepth + 1) maxDepth sub projects
        else projects)"
| "PS_scanEntries parse dirPath currentDepth maxDepth (File name r # rest) projects =
     PS_scanEntries parse dirPath currentDepth maxDepth rest projects"
| "PS_scanEntries parse dirPath currentDepth maxDepth (Other name r # rest) projects =
     PS_scanEntries parse dirPath currentDepth maxDepth rest projects"

text \<open>
  \<open>scanForProjects\<close> on a scanner whose \<open>projects\<close> field holds \<open>projects\<close> (empty
  after the constructor): the list it returns.
\<close>

definition scanForProjects ::
    "(string \<Rightarrow> json option) \<Rightarrow> project list \<Rightarrow> string \<Rightarrow> nat \<Rightarrow> listing \<Rightarrow> project list" where
  "scanForProjects parse projects startDir maxDepth dir =
     (let found = PS_scanDirectory parse startDir 0 maxDepth dir projects
      in if length found = 0 then [] else found)"

text \<open>
  The recursion rule in the words of the specification, for comparison with
  \<open>PS_scanDirectory\<close>: every directory that is reached is examined, and its
  subdirectories are entered provided the current depth is below \<open>maxDepth\<close>.
\<close>

fun spec_scanDirectory ::
    "(string \<Rightarrow> json option) \<Rightarrow> string \<Rightarrow> nat \<Rightarrow> nat \<Rightarrow> listing \<Rightarrow> project list \<Rightarrow> project list"
  and spec_scanEntries ::
    "(string \<Rightarrow> json option) \<Rightarrow> string \<Rightarrow> nat \<Rightarrow> nat \<Rightarrow> dirent list \<Rightarrow> project list \<Rightarrow> project list"
where
  "spec_scanDirectory parse dirPath currentDepth maxDepth dir projects =
     (case dir of
        ReaddirError e \<Rightarrow> projects
      | Entries entries \<Rightarrow>
          (let recorded =
                 (case detectFramework parse dir of
                    Some framework \<Rightarrow>
                      projects @ [\<lparr>p_name = basename dirPath, p_path = dirPath,
                                    p_framework = framework\<rparr>]
                  | None \<Rightarrow> projects)
           in if currentDepth < maxDepth
              then spec_scanEntries parse dirPath currentDepth maxDepth entries recorded
              else recorded))"
| "spec_scanEntries parse dirPath currentDepth maxDepth [] projects = projects"
| "spec_scanEntries parse dirPath currentDepth maxDepth (Directory name sub # rest) projects =
     spec_scanEntries parse dirPath currentDepth maxDepth rest
       (if name \<notin> set IGNORE_DIRS \<and> \<not> startsWith name ''.''
        then spec_scanDirectory parse (path_join dirPath name) (currentDepth + 1) maxDepth sub projects
        else projects)"
| "spec_scanEntries parse dirPath currentDepth maxDepth (File name r # rest) projects =
     spec_scanEntries parse dirPath currentDepth maxDepth rest projects"
| "spec_scanEntries parse dirPath currentDepth maxDepth (Other name r # rest) projects =
     spec_scanEntries parse dirPath currentDepth maxDepth rest projects"

section \<open>CodeCounter\<close>

record bucket =
  b_count :: nat
  b_lines :: nat
  b_codeLines :: nat

record fileEntry =
  f_path :: string
  f_lines :: nat
  f_codeLines :: nat
  f_size :: nat
  f_type :: string

text \<open>
  \<open>this.stats\<close>. The two objects \<open>fileTypes\<close> and \<open>categories\<close> are association
  lists in the order in which their keys were created.
\<close>

record stats =
  totalFiles :: nat
  totalLines :: nat
  totalCodeLines :: nat
  totalBlankLines :: nat
  totalCommentLines :: nat
  fileTypes :: "(string \<times> bucket) list"
  categories :: "(string \<times> bucket) list"
  largestFiles :: "fileEntry list"
  errors :: "string list"

text \<open>The state the constructor leaves.\<close>

definition CodeCounter_new :: stats where
  "CodeCounter_new =
     \<lparr>totalFiles = 0, totalLines = 0, totalCodeLines = 0, totalBlankLines = 0,
      totalCommentLines = 0, fileTypes = [], categories = [], largestFiles = [], errors = []\<rparr>"

definition isCodeFile :: "string \<Rightarrow> bool" where
  "isCodeFile filePath = (toLowerCase (extname filePath) \<in> set CODE_EXTENSIONS)"

definition shouldIgnoreDir :: "string \<Rightarrow> bool" where
  "shouldIgnoreDir dirName = (dirName \<in> set IGNORE_DIRS \<or> startsWith dirName ''.'')"

definition shouldIgnoreFile :: "string \<Rightarrow> bool" where
  "shouldIgnoreFile fileName =
     (fileName \<in> set IGNORE_FILES \<or> startsWith fileName ''.'' \<or> endsWith fileName ''.min.js'')"

text \<open>The first category, in the order of the literal, whose pattern matches.\<close>

fun firstCategory :: "(string \<times> string list) list \<Rightarrow> string \<Rightarrow> string" where
  "firstCategory [] filePath = ''other''"
| "firstCategory ((category, pattern) # rest) filePath =
     (if pattern_test pattern filePath then category else firstCategory rest filePath)"

definition categorizeFile :: "framework option \<Rightarrow> string \<Rightarrow> string" where
  "categorizeFile framework filePath =
     (case framework of
        None \<Rightarrow> ''other''
      | Some fw \<Rightarrow> firstCategory (fw_categories fw) filePath)"

text \<open>
  The update of one bucket object: the entry for \<open>key\<close> is created with zeros when it
  is missing, then its three fields grow.
\<close>

fun addToBucket :: "string \<Rightarrow> lineStats \<Rightarrow> (string \<times> bucket) list \<Rightarrow> (string \<times> bucket) list" where
  "addToBucket key lineStats [] =
     [(key, \<lparr>b_count = 0 + 1, b_lines = 0 + ls_total lineStats, b_codeLines = 0 + ls_code lineStats\<rparr>)]"
| "addToBucket key lineStats ((k, b) # rest) =
     (if k = key
      then (k, \<lparr>b_count = b_count b + 1, b_lines = b_lines b + ls_total lineStats,
                b_codeLines = b_codeLines b + ls_code lineStats\<rparr>) # rest
      else (k, b) # addToBucket key lineStats rest)"

text \<open>
  \<open>largestFiles.sort((a, b) => b.lines - a.lines)\<close>: a stable sort, larger line
  counts first.
\<close>

definition sortLargest :: "fileEntry list \<Rightarrow> fileEntry list" where
  "sortLargest fs = sort_key (\<lambda>f. - int (f_lines f)) fs"

text \<open>
  \<open>processFile\<close>; \<open>r\<close> is what \<open>fs.readFile(filePath, 'utf-8')\<close> does. Nothing else
  in the \<open>try\<close> block throws, and the read comes before every update.
\<close>

definition processFile :: "framework option \<Rightarrow> string \<Rightarrow> string \<Rightarrow> read \<Rightarrow> stats \<Rightarrow> stats" where
  "processFile framework filePath relativePath r stats =
     (case r of
        ReadError message \<Rightarrow>
          stats\<lparr>errors := errors stats @ [''Error processing file '' @ filePath @ '': '' @ message]\<rparr>
      | Content content \<Rightarrow>
          (let lineStats = countLines content filePath;
               ext = toLowerCase (extname filePath);
               category = categorizeFile framework relativePath;
               fileSize = length content;
               pushed = largestFiles stats @
                  [\<lparr>f_path = relativePath, f_lines = ls_total lineStats,
                    f_codeLines = ls_code lineStats, f_size = fileSize, f_type = ext\<rparr>]
           in stats\<lparr>totalFiles := totalFiles stats + 1,
                 totalLines := totalLines stats + ls_total lineStats,
                 totalCodeLines := totalCodeLines stats + ls_code lineStats,
                 totalBlankLines := totalBlankLines stats + ls_blank lineStats,
                 totalCommentLines := totalCommentLines stats + ls_comments lineStats,
                 fileTypes := addToBucket ext lineStats (fileTypes stats),
                 categories := addToBucket category lineStats (categories stats),
                 largestFiles := (if length pushed > 5 then take 5 (sortLargest pushed) else pushed)\<rparr>))"

text \<open>
  \<open>CodeCounter.scanDirectory\<close> and its loop over the entries, one equation per kind
  of entry. The spinner only displays text and is left out.
\<close>

fun CC_scanDirectory ::
    "framework option \<Rightarrow> string \<Rightarrow> string \<Rightarrow> listing \<Rightarrow> stats \<Rightarrow> stats"
  and CC_scanEntries ::
    "framework option \<Rightarrow> string \<Rightarrow> string \<Rightarrow> dirent list \<Rightarrow> stats \<Rightarrow> stats"
where
  "CC_scanDirectory framework dirPath basePath (ReaddirError message) stats =
     stats\<lparr>errors := errors stats @ [''Error scanning directory '' @ dirPath @ '': '' @ message]\<rparr>"
| "CC_scanDirectory framework dirPath basePath (Entries entries) stats =
     CC_scanEntries framework dirPath basePath entries stats"
| "CC_scanEntries framework dirPath basePath [] stats = stats"
| "CC_scanEntries framework dirPath basePath (Directory name sub # rest) stats =
     CC_scanEntries framework dirPath basePath rest
       (let fullPath = path_join dirPath name
        in if \<not> shouldIgnoreDir name
           then CC_scanDirectory framework fullPath basePath sub stats
           else stats)"
| "CC_scanEntries framework dirPath basePath (File name r # rest) stats =
     CC_scanEntries framework dirPath basePath rest
       (let fullPath = path_join dirPath name;
            relativePath = path_relative basePath fullPath
        in if \<not> shouldIgnoreFile name \<and> isCodeFile fullPath
           then processFile framework fullPath relativePath r stats
           else stats)"
| "CC_scanEntries framework dirPath basePath (Other name r # rest) stats =
     CC_scanEntries framework dirPath basePath rest stats"

record summary =
  s_totalFiles :: nat
  s_totalLines :: nat
  s_totalCodeLines :: nat
  s_totalBlankLines :: nat
  s_totalCommentLines :: nat
  s_codeRatio :: rat

record report =
  r_summary :: summary
  r_fileTypes :: "(string \<times> bucket) list"
  r_categories :: "(string \<times> bucket) list"
  r_largestFiles :: "fileEntry list"
  r_errors :: "string list"

text \<open>
  \<open>generateReport\<close> first sorts \<open>this.stats.largestFiles\<close> in place
  (\<open>generateReport_stats\<close> is the counter afterwards), then builds the report from the
  counter. \<open>s_codeRatio\<close> is the percentage before \<open>toFixed(1)\<close> prints it.
\<close>

definition generateReport_stats :: "stats \<Rightarrow> stats" where
  "generateReport_stats stats = stats\<lparr>largestFiles := sortLargest (largestFiles stats)\<rparr>"

definition generateReport :: "stats \<Rightarrow> report" where
  "generateReport stats0 =
     (let stats = generateReport_stats stats0
      in \<lparr>r_summary =
            \<lparr>s_totalFiles = totalFiles stats,
             s_totalLines = totalLines stats,
             s_totalCodeLines = totalCodeLines stats,
             s_totalBlankLines = totalBlankLines stats,
             s_totalCommentLines = totalCommentLines stats,
             s_codeRatio = (if totalLines stats > 0
                            then (of_nat (totalCodeLines stats) / of_nat (totalLines stats)) * 100
                            else 0)\<rparr>,
          r_fileTypes = fileTypes stats,
          r_categories = categories stats,
          r_largestFiles = largestFiles stats,
          r_errors = errors stats\<rparr>)"

section \<open>Observations on the counter\<close>


text \<open>The sum of the file counts of all buckets of one bucket object.\<close>

definition countSum :: "(string \<times> bucket) list \<Rightarrow> nat" where
  "countSum buckets = sum_list (map (\<lambda>kb. b_count (snd kb)) buckets)"

text \<open>The file count of the bucket for \<open>key\<close>, zero while the bucket is missing.\<close>

definition bucketCount :: "(string \<times> bucket) list \<Rightarrow> string \<Rightarrow> nat" where
  "bucketCount buckets key = (case map_of buckets key of None \<Rightarrow> 0 | Some b \<Rightarrow> b_count b)"

text \<open>
  The updates one scan makes to the counter, in order: a file handed to
  \<open>processFile\<close> (with its full path, its relative path and what reading it gives),
  or the error entry for a directory that cannot be listed.
\<close>

datatype action = Process string string read | ScanError string string

fun walkDirectory :: "string \<Rightarrow> string \<Rightarrow> listing \<Rightarrow> action list"
  and walkEntries :: "string \<Rightarrow> string \<Rightarrow> dirent list \<Rightarrow> action list"
where
  "walkDirectory dirPath basePath (ReaddirError message) = [ScanError dirPath message]"
| "walkDirectory dirPath basePath (Entries entries) = walkEntries dirPath basePath entries"
| "walkEntries dirPath basePath [] = []"
| "walkEntries dirPath basePath (Directory name sub # rest) =
     (if shouldIgnoreDir name then []
      else walkDirectory (path_join dirPath name) basePath sub)
     @ walkEntries dirPath basePath rest"
| "walkEntries dirPath basePath (File name r # rest) =
     (if shouldIgnoreFile name then []
      else if isCodeFile (path_join dirPath name)
      then [Process (path_join dirPath name)
              (path_relative basePath (path_join dirPath name)) r]
      else [])
     @ walkEntries dirPath basePath rest"
| "walkEntries dirPath basePath (Other name r # rest) = walkEntries dirPath basePath rest"

fun applyAction :: "framework option \<Rightarrow> action \<Rightarrow> stats \<Rightarrow> stats" where
  "applyAction framework (Process filePath relativePath r) stats =
     processFile framework filePath relativePath r stats"
| "applyAction framework (ScanError dirPath message) stats =
     stats\<lparr>errors := errors stats @ [''Error scanning directory '' @ dirPath @ '': '' @ message]\<rparr>"

text \<open>The same for the line counts and the code-line counts of the buckets.\<close>

definition linesSum :: "(string \<times> bucket) list \<Rightarrow> nat" where
  "linesSum buckets = sum_list (map (\<lambda>kb. b_lines (snd kb)) buckets)"

definition codeLinesSum :: "(string \<times> bucket) list \<Rightarrow> nat" where
  "codeLinesSum buckets = sum_list (map (\<lambda>kb. b_codeLines (snd kb)) buckets)"

definition bucketLines :: "(string \<times> bucket) list \<Rightarrow> string \<Rightarrow> nat" where
  "bucketLines buckets key = (case map_of buckets key of None \<Rightarrow> 0 | Some b \<Rightarrow> b_lines b)"

definition bucketCodeLines :: "(string \<times> bucket) list \<Rightarrow> string \<Rightarrow> nat" where
  "bucketCodeLines buckets key =
     (case map_of buckets key of None \<Rightarrow> 0 | Some b \<Rightarrow> b_codeLines b)"

text \<open>Every bucket object accounts for each counted file once.\<close>

definition bucketsComplete :: "stats \<Rightarrow> bool" where
  "bucketsComplete s =
     (countSum (fileTypes s) = totalFiles s \<and> countSum (categories s) = totalFiles s)"

text \<open>
  Every bucket object accounts for the lines and the code lines of each counted file
  once, and the code, blank and comment totals add up to the line total.
\<close>

definition linesComplete :: "stats \<Rightarrow> bool" where
  "linesComplete s =
     (linesSum (fileTypes s) = totalLines s \<and> codeLinesSum (fileTypes s) = totalCodeLines s
      \<and> linesSum (categories s) = totalLines s \<and> codeLinesSum (categories s) = totalCodeLines s
      \<and> totalCodeLines s + totalBlankLines s + totalCommentLines s = totalLines s)"

text \<open>
  The five totals grow from \<open>s\<close> to \<open>t\<close> by as much as they grow from \<open>s'\<close> to
  \<open>t'\<close>.
\<close>

definition sameGrowth :: "stats \<Rightarrow> stats \<Rightarrow> stats \<Rightarrow> stats \<Rightarrow> bool" where
  "sameGrowth s t s' t' =
    (totalFiles t + totalFiles s' = totalFiles t' + totalFiles s
   \<and> totalLines t + totalLines s' = totalLines t' + totalLines s
   \<and> totalCodeLines t + totalCodeLines s' = totalCodeLines t' + totalCodeLines s
   \<and> totalBlankLines t + totalBlankLines s' = totalBlankLines t' + totalBlankLines s
   \<and> totalCommentLines t + totalCommentLines s' = totalCommentLines t' + totalCommentLines s)"

text \<open>A counter that has counted no file has counted no line.\<close>

definition noFileNoLines :: "stats \<Rightarrow> bool" where
  "noFileNoLines s =
     (0 < totalFiles s \<or>
      (totalLines s = 0 \<and> totalCodeLines s = 0 \<and> totalBlankLines s = 0
       \<and> totalCommentLines s = 0))"

section \<open>The line classifier\<close>

lemma countLine_cases:
  "(codeLines (countLine j c e line st), commentLines (countLine j c e line st),
    blankLines (countLine j c e line st))
     \<in> {(codeLines st + 1, commentLines st, blankLines st),
        (codeLines st, commentLines st + 1, blankLines st),
        (codeLines st, commentLines st, blankLines st + 1)}"
  by (simp add: countLine_def Let_def)

lemma countLine_sum:
  "codeLines (countLine j c e line st) + commentLines (countLine j c e line st)
     + blankLines (countLine j c e line st)
   = codeLines st + commentLines st + blankLines st + 1"
  by (simp add: countLine_def Let_def)

lemma countLoop_sum:
  "codeLines (countLoop j c e ls st) + commentLines (countLoop j c e ls st)
     + blankLines (countLoop j c e ls st)
   = codeLines st + commentLines st + blankLines st + length ls"
proof (induction ls arbitrary: st)
  case Nil
  show ?case by simp
next
  case (Cons l ls)
  show ?case
    using Cons.IH [of "countLine j c e l st"] countLine_sum [of j c e l st] by simp
qed

lemma split_lines_not_Nil: "split_lines s \<noteq> []"
  by (induction s) (auto split: list.splits)

lemma length_split_lines: "length (split_lines s) = count_list s (CHR 0x0A) + 1"
proof (induction s)
  case Nil
  show ?case by simp
next
  case (Cons c cs)
  then show ?case
    using split_lines_not_Nil [of cs] by (auto split: list.splits)
qed

lemma countLines_empty:
  "countLines [] filePath = \<lparr>ls_total = 1, ls_code = 0, ls_comments = 0, ls_blank = 1\<rparr>"
  by (simp add: countLines_def Let_def counters0_def countLine_def trim_def)

lemma countLines_partition:
  "ls_code (countLines content filePath) + ls_comments (countLines content filePath)
     + ls_blank (countLines content filePath) = length (split_lines content)"
  using countLoop_sum [of "isJsLikeExt (toLowerCase (extname filePath))"
      "isCssLikeExt (toLowerCase (extname filePath))" "toLowerCase (extname filePath)"
      "split_lines content" counters0]
  by (simp add: countLines_def Let_def counters0_def)

text \<open>
  Claim C4. For every content and every file path (hence every extension), the code,
  comment and blank counts that \<open>countLines\<close> returns add up to its total; and one
  pass of the loop body raises exactly one of the three counters, by one, whatever the
  flags and the state are. The total is the number of lines of the content, one more
  than its line feeds, and the three counts are those of the loop run over these lines
  from zero: every line of the content is counted, each in one class.
\<close>

theorem C4_classify_partitions_lines:
  "ls_code (countLines content filePath) + ls_comments (countLines content filePath)
     + ls_blank (countLines content filePath) = ls_total (countLines content filePath)
   \<and> (codeLines (countLine j c e line st), commentLines (countLine j c e line st),
        blankLines (countLine j c e line st))
       \<in> {(codeLines st + 1, commentLines st, blankLines st),
          (codeLines st, commentLines st + 1, blankLines st),
          (codeLines st, commentLines st, blankLines st + 1)}
   \<and> ls_total (countLines content filePath) = length (split_lines content)
   \<and> length (split_lines content) = count_list content (CHR 0x0A) + 1
   \<and> ls_code (countLines content filePath) + ls_comments (countLines content filePath)
       + ls_blank (countLines content filePath) = length (split_lines content)
   \<and> ls_code (countLines content filePath)
       = codeLines (countLoop (isJsLikeExt (toLowerCase (extname filePath)))
           (isCssLikeExt (toLowerCase (extname filePath))) (toLowerCase (extname filePath))
           (split_lines content) counters0)
   \<and> ls_comments (countLines content filePath)
       = commentLines (countLoop (isJsLikeExt (toLowerCase (extname filePath)))
           (isCssLikeExt (toLowerCase (extname filePath))) (toLowerCase (extname filePath))
           (split_lines content) counters0)
   \<and> ls_blank (countLines content filePath)
       = blankLines (countLoop (isJsLikeExt (toLowerCase (extname filePath)))
           (isCssLikeExt (toLowerCase (extname filePath))) (toLowerCase (extname filePath))
           (split_lines content) counters0)
   \<and> countLoop j c e (line # rest) st = countLoop j c e rest (countLine j c e line st)
   \<and> countLoop j c e [] st = st"
proof -
  have t: "ls_total (countLines content filePath) = length (split_lines content)"
    by (simp add: countLines_def Let_def)
  have f: "ls_code (countLines content filePath)
       = codeLines (countLoop (isJsLikeExt (toLowerCase (extname filePath)))
           (isCssLikeExt (toLowerCase (extname filePath))) (toLowerCase (extname filePath))
           (split_lines content) counters0)
    \<and> ls_comments (countLines content filePath)
       = commentLines (countLoop (isJsLikeExt (toLowerCase (extname filePath)))
           (isCssLikeExt (toLowerCase (extname filePath))) (toLowerCase (extname filePath))
           (split_lines content) counters0)
    \<and> ls_blank (countLines content filePath)
       = blankLines (countLoop (isJsLikeExt (toLowerCase (extname filePath)))
           (isCssLikeExt (toLowerCase (extname filePath))) (toLowerCase (extname filePath))
           (split_lines content) counters0)"
    by (simp add: countLines_def Let_def)
  show ?thesis
    using t f countLines_partition [of content filePath] length_split_lines [of content]
      countLine_cases [of j c e line st]
    by simp
qed

text \<open>
  Claim C8. For a style-sheet extension, a line whose trimmed text starts with the
  block-comment opener, met while no block comment is open, is counted as a comment
  line and as nothing else, whether or not it holds the closer; the block-comment state
  afterwards is open exactly when the closer is missing.
\<close>

theorem C8_css_block_open_is_comment:
  assumes "isCssLikeExt ext" and "startsWith (trim line) ''/*''" and "\<not> inMultiLineComment st"
  shows "commentLines (countLine isJsLike (isCssLikeExt ext) ext line st) = commentLines st + 1
       \<and> codeLines (countLine isJsLike (isCssLikeExt ext) ext line st) = codeLines st
       \<and> blankLines (countLine isJsLike (isCssLikeExt ext) ext line st) = blankLines st
       \<and> inMultiLineComment (countLine isJsLike (isCssLikeExt ext) ext line st)
           = (\<not> includes_str (trim line) ''*/'')"
proof -
  from assms(2) have ne: "trim line \<noteq> []" by (cases "trim line") auto
  show ?thesis using assms ne by (simp add: countLine_def Let_def)
qed

theorem C8_css_block_open_is_comment_witness:
  "isCssLikeExt ''.scss'' \<and> startsWith (trim ''  /* open'') ''/*''
   \<and> \<not> inMultiLineComment counters0
   \<and> commentLines (countLine False (isCssLikeExt ''.scss'') ''.scss'' ''  /* open'' counters0) = 1
   \<and> codeLines (countLine False (isCssLikeExt ''.scss'') ''.scss'' ''  /* open'' counters0) = 0
   \<and> blankLines (countLine False (isCssLikeExt ''.scss'') ''.scss'' ''  /* open'' counters0) = 0
   \<and> inMultiLineComment (countLine False (isCssLikeExt ''.scss'') ''.scss'' ''  /* open'' counters0)
   \<and> countLines ''  /* open'' ''/p/style.scss''
       = \<lparr>ls_total = 1, ls_code = 0, ls_comments = 1, ls_blank = 0\<rparr>"
proof -
  have a: "isCssLikeExt ''.scss''" by (simp add: isCssLikeExt_def)
  have b: "startsWith (trim ''  /* open'') ''/*''" by (simp add: trim_def isWhiteSpace_def)
  have c: "\<not> inMultiLineComment counters0" by (simp add: counters0_def)
  have d: "\<not> includes_str (trim ''  /* open'') ''*/''" by (simp add: trim_def isWhiteSpace_def)
  have w: "countLines ''  /* open'' ''/p/style.scss''
       = \<lparr>ls_total = 1, ls_code = 0, ls_comments = 1, ls_blank = 0\<rparr>"
    by code_simp
  show ?thesis
    using a b c d w C8_css_block_open_is_comment [OF a b c, of False]
    by (simp add: counters0_def)
qed

text \<open>
  Claim C9. The total that \<open>countLines\<close> returns is the number of line feeds of the
  content plus one, so at least one; the empty content gives one line, blank; and
  processing a file with empty content adds one file, one line and one blank line to
  the running totals.
\<close>

theorem C9_total_is_newlines_plus_one:
  "ls_total (countLines content filePath) = count_list content (CHR 0x0A) + 1
   \<and> 1 \<le> ls_total (countLines content filePath)
   \<and> countLines [] filePath = \<lparr>ls_total = 1, ls_code = 0, ls_comments = 0, ls_blank = 1\<rparr>
   \<and> totalFiles (processFile framework filePath relativePath (Content []) stats)
       = totalFiles stats + 1
   \<and> totalLines (processFile framework filePath relativePath (Content []) stats)
       = totalLines stats + 1
   \<and> totalBlankLines (processFile framework filePath relativePath (Content []) stats)
       = totalBlankLines stats + 1
   \<and> totalCodeLines (processFile framework filePath relativePath (Content []) stats)
       = totalCodeLines stats
   \<and> totalCommentLines (processFile framework filePath relativePath (Content []) stats)
       = totalCommentLines stats"
proof -
  have t: "ls_total (countLines content filePath) = count_list content (CHR 0x0A) + 1"
    by (simp add: countLines_def Let_def length_split_lines)
  show ?thesis
    by (simp add: t countLines_empty processFile_def Let_def)
qed

section \<open>The counter\<close>

lemma scan_is_fold:
  "CC_scanDirectory fw d b l s = fold (applyAction fw) (walkDirectory d b l) s"
  "CC_scanEntries fw d b es s = fold (applyAction fw) (walkEntries d b es) s"
proof (induction fw d b l s and fw d b es s rule: CC_scanDirectory_CC_scanEntries.induct)
  case (1 framework dirPath basePath message stats)
  show ?case by simp
next
  case (2 framework dirPath basePath entries stats)
  then show ?case by simp
next
  case (3 framework dirPath basePath stats)
  show ?case by simp
next
  case (4 framework dirPath basePath name sub rest stats)
  show ?case
  proof (cases "shouldIgnoreDir name")
    case True
    then show ?thesis using 4(2) by (simp add: Let_def)
  next
    case False
    then show ?thesis using 4(1) [OF refl False] 4(2) by (simp add: Let_def)
  qed
next
  case (5 framework dirPath basePath name r rest stats)
  then show ?case by (simp add: Let_def)
next
  case (6 framework dirPath basePath name r rest stats)
  then show ?case by simp
qed

lemma fold_invariant:
  assumes "P s" and "\<And>a t. P t \<Longrightarrow> P (applyAction fw a t)"
  shows "P (fold (applyAction fw) as s)"
  using assms(1)
proof (induction as arbitrary: s)
  case Nil
  then show ?case by simp
next
  case (Cons a as)
  then show ?case using assms(2) by simp
qed

lemma addToBucket_countSum:
  "countSum (addToBucket key ls bs) = countSum bs + 1"
  by (induction bs) (auto simp: countSum_def)

lemma addToBucket_bucketCount:
  "bucketCount (addToBucket key ls bs) k = bucketCount bs k + (if k = key then 1 else 0)"
  by (induction bs) (auto simp: bucketCount_def)

lemma applyAction_bucketsComplete:
  "bucketsComplete t \<Longrightarrow> bucketsComplete (applyAction fw a t)"
proof (cases a)
  case (Process p rel r)
  assume "bucketsComplete t"
  then show ?thesis using Process
    by (cases r) (simp_all add: bucketsComplete_def processFile_def Let_def addToBucket_countSum)
next
  case (ScanError d m)
  assume "bucketsComplete t"
  then show ?thesis using ScanError by (simp add: bucketsComplete_def)
qed

lemma scan_bucketsComplete:
  "bucketsComplete s \<Longrightarrow> bucketsComplete (CC_scanDirectory fw d b l s)"
  unfolding scan_is_fold
  by (rule fold_invariant) (auto intro: applyAction_bucketsComplete)

lemma addToBucket_linesSum:
  "linesSum (addToBucket key ls bs) = linesSum bs + ls_total ls"
  by (induction bs) (auto simp: linesSum_def)

lemma addToBucket_codeLinesSum:
  "codeLinesSum (addToBucket key ls bs) = codeLinesSum bs + ls_code ls"
  by (induction bs) (auto simp: codeLinesSum_def)

lemma addToBucket_bucketLines:
  "bucketLines (addToBucket key ls bs) k = bucketLines bs k + (if k = key then ls_total ls else 0)"
  by (induction bs) (auto simp: bucketLines_def)

lemma addToBucket_bucketCodeLines:
  "bucketCodeLines (addToBucket key ls bs) k
     = bucketCodeLines bs k + (if k = key then ls_code ls else 0)"
  by (induction bs) (auto simp: bucketCodeLines_def)

lemma countLines_total_sum:
  "ls_code (countLines content filePath) + ls_blank (countLines content filePath)
     + ls_comments (countLines content filePath) = ls_total (countLines content filePath)"
  using countLines_partition [of content filePath] by (simp add: countLines_def Let_def)

lemma applyAction_linesComplete:
  "linesComplete t \<Longrightarrow> linesComplete (applyAction fw a t)"
proof (cases a)
  case (Process p rel r)
  assume t: "linesComplete t"
  show ?thesis
  proof (cases r)
    case (Content content)
    then show ?thesis
      using t Process countLines_total_sum [of content p]
      by (simp add: linesComplete_def processFile_def Let_def addToBucket_linesSum
          addToBucket_codeLinesSum)
  next
    case (ReadError m)
    then show ?thesis using t Process by (simp add: linesComplete_def processFile_def)
  qed
next
  case (ScanError d m)
  assume "linesComplete t"
  then show ?thesis using ScanError by (simp add: linesComplete_def)
qed

lemma scan_linesComplete:
  "linesComplete s \<Longrightarrow> linesComplete (CC_scanDirectory fw d b l s)"
  unfolding scan_is_fold
  by (rule fold_invariant) (auto intro: applyAction_linesComplete)

text \<open>
  Claim C6. A file that is read adds one to the file total, one to the bucket of its
  extension and to no other extension bucket, one to the bucket of its category and to
  no other category bucket. Hence, in the report of a scan through a new counter, the
  file counts of the category buckets add up to the file total, and so do those of the
  extension buckets. The line counts follow the same rule: the file's total, code,
  blank and comment lines are added once to the four line totals, its total and code
  lines once to the two buckets of the file and to no other bucket; in the report the
  lines and code lines of the buckets add up to the two totals, and the code, blank
  and comment totals add up to the line total.
\<close>

theorem C6_buckets_complete:
  "countSum (r_categories (generateReport (CC_scanDirectory framework dirPath basePath dir CodeCounter_new)))
     = s_totalFiles (r_summary (generateReport (CC_scanDirectory framework dirPath basePath dir CodeCounter_new)))
   \<and> countSum (r_fileTypes (generateReport (CC_scanDirectory framework dirPath basePath dir CodeCounter_new)))
     = s_totalFiles (r_summary (generateReport (CC_scanDirectory framework dirPath basePath dir CodeCounter_new)))
   \<and> totalFiles (processFile framework filePath relativePath (Content content) stats) = totalFiles stats + 1
   \<and> bucketCount (fileTypes (processFile framework filePath relativePath (Content content) stats)) key
       = bucketCount (fileTypes stats) key + (if key = toLowerCase (extname filePath) then 1 else 0)
   \<and> bucketCount (categories (processFile framework filePath relativePath (Content content) stats)) key
       = bucketCount (categories stats) key + (if key = categorizeFile framework relativePath then 1 else 0)
   \<and> totalLines (processFile framework filePath relativePath (Content content) stats)
       = totalLines stats + ls_total (countLines content filePath)
   \<and> totalCodeLines (processFile framework filePath relativePath (Content content) stats)
       = totalCodeLines stats + ls_code (countLines content filePath)
   \<and> totalBlankLines (processFile framework filePath relativePath (Content content) stats)
       = totalBlankLines stats + ls_blank (countLines content filePath)
   \<and> totalCommentLines (processFile framework filePath relativePath (Content content) stats)
       = totalCommentLines stats + ls_comments (countLines content filePath)
   \<and> bucketLines (fileTypes (processFile framework filePath relativePath (Content content) stats)) key
       = bucketLines (fileTypes stats) key
         + (if key = toLowerCase (extname filePath) then ls_total (countLines content filePath) else 0)
   \<and> bucketCodeLines (fileTypes (processFile framework filePath relativePath (Content content) stats)) key
       = bucketCodeLines (fileTypes stats) key
         + (if key = toLowerCase (extname filePath) then ls_code (countLines content filePath) else 0)
   \<and> bucketLines (categories (processFile framework filePath relativePath (Content content) stats)) key
       = bucketLines (categories stats) key
         + (if key = categorizeFile framework relativePath then ls_total (countLines content filePath) else 0)
   \<and> bucketCodeLines (categories (processFile framework filePath relativePath (Content content) stats)) key
       = bucketCodeLines (categories stats) key
         + (if key = categorizeFile framework relativePath then ls_code (countLines content filePath) else 0)
   \<and> linesSum (r_categories (generateReport (CC_scanDirectory framework dirPath basePath dir CodeCounter_new)))
       = s_totalLines (r_summary (generateReport (CC_scanDirectory framework dirPath basePath dir CodeCounter_new)))
   \<and> linesSum (r_fileTypes (generateReport (CC_scanDirectory framework dirPath basePath dir CodeCounter_new)))
       = s_totalLines (r_summary (generateReport (CC_scanDirectory framework dirPath basePath dir CodeCounter_new)))
   \<and> codeLinesSum (r_categories (generateReport (CC_scanDirectory framework dirPath basePath dir CodeCounter_new)))
       = s_totalCodeLines (r_summary (generateReport (CC_scanDirectory framework dirPath basePath dir CodeCounter_new)))
   \<and> codeLinesSum (r_fileTypes (generateReport (CC_scanDirectory framework dirPath basePath dir CodeCounter_new)))
       = s_totalCodeLines (r_summary (generateReport (CC_scanDirectory framework dirPath basePath dir CodeCounter_new)))
   \<and> s_totalCodeLines (r_summary (generateReport (CC_scanDirectory framework dirPath basePath dir CodeCounter_new)))
       + s_totalBlankLines (r_summary (generateReport (CC_scanDirectory framework dirPath basePath dir CodeCounter_new)))
       + s_totalCommentLines (r_summary (generateReport (CC_scanDirectory framework dirPath basePath dir CodeCounter_new)))
       = s_totalLines (r_summary (generateReport (CC_scanDirectory framework dirPath basePath dir CodeCounter_new)))"
proof -
  let ?scan = "CC_scanDirectory framework dirPath basePath dir CodeCounter_new"
  have "bucketsComplete CodeCounter_new"
    by (simp add: bucketsComplete_def CodeCounter_new_def countSum_def)
  then have "bucketsComplete ?scan"
    by (rule scan_bucketsComplete)
  then have rep: "countSum (r_categories (generateReport ?scan)) = s_totalFiles (r_summary (generateReport ?scan))
   \<and> countSum (r_fileTypes (generateReport ?scan)) = s_totalFiles (r_summary (generateReport ?scan))"
    by (simp add: bucketsComplete_def generateReport_def generateReport_stats_def Let_def)
  have "linesComplete CodeCounter_new"
    by (simp add: linesComplete_def CodeCounter_new_def linesSum_def codeLinesSum_def)
  then have "linesComplete ?scan"
    by (rule scan_linesComplete)
  then have lin: "linesSum (r_categories (generateReport ?scan)) = s_totalLines (r_summary (generateReport ?scan))
   \<and> linesSum (r_fileTypes (generateReport ?scan)) = s_totalLines (r_summary (generateReport ?scan))
   \<and> codeLinesSum (r_categories (generateReport ?scan)) = s_totalCodeLines (r_summary (generateReport ?scan))
   \<and> codeLinesSum (r_fileTypes (generateReport ?scan)) = s_totalCodeLines (r_summary (generateReport ?scan))
   \<and> s_totalCodeLines (r_summary (generateReport ?scan)) + s_totalBlankLines (r_summary (generateReport ?scan))
       + s_totalCommentLines (r_summary (generateReport ?scan))
       = s_totalLines (r_summary (generateReport ?scan))"
    by (simp add: linesComplete_def generateReport_def generateReport_stats_def Let_def)
  let ?p = "processFile framework filePath relativePath (Content content) stats"
  have step: "totalFiles ?p = totalFiles stats + 1
   \<and> bucketCount (fileTypes ?p) key
       = bucketCount (fileTypes stats) key + (if key = toLowerCase (extname filePath) then 1 else 0)
   \<and> bucketCount (categories ?p) key
       = bucketCount (categories stats) key + (if key = categorizeFile framework relativePath then 1 else 0)"
    by (simp add: processFile_def Let_def addToBucket_bucketCount)
  have tot: "totalLines ?p = totalLines stats + ls_total (countLines content filePath)
   \<and> totalCodeLines ?p = totalCodeLines stats + ls_code (countLines content filePath)
   \<and> totalBlankLines ?p = totalBlankLines stats + ls_blank (countLines content filePath)
   \<and> totalCommentLines ?p = totalCommentLines stats + ls_comments (countLines content filePath)"
    by (simp add: processFile_def Let_def)
  have bl: "bucketLines (fileTypes ?p) key
       = bucketLines (fileTypes stats) key
         + (if key = toLowerCase (extname filePath) then ls_total (countLines content filePath) else 0)
   \<and> bucketCodeLines (fileTypes ?p) key
       = bucketCodeLines (fileTypes stats) key
         + (if key = toLowerCase (extname filePath) then ls_code (countLines content filePath) else 0)
   \<and> bucketLines (categories ?p) key
       = bucketLines (categories stats) key
         + (if key = categorizeFile framework relativePath then ls_total (countLines content filePath) else 0)
   \<and> bucketCodeLines (categories ?p) key
       = bucketCodeLines (categories stats) key
         + (if key = categorizeFile framework relativePath then ls_code (countLines content filePath) else 0)"
    by (simp add: processFile_def Let_def addToBucket_bucketLines addToBucket_bucketCodeLines)
  show ?thesis using rep lin step tot bl by blast
qed

lemma processFile_largest_length:
  "length (largestFiles s) \<le> 5 \<Longrightarrow> length (largestFiles (processFile fw p rel r s)) \<le> 5"
  by (cases r) (simp_all add: processFile_def Let_def)

lemma applyAction_largest_length:
  "length (largestFiles t) \<le> 5 \<Longrightarrow> length (largestFiles (applyAction fw a t)) \<le> 5"
  by (cases a) (simp_all add: processFile_largest_length)

lemma fold_largest_length:
  "length (largestFiles s) \<le> 5 \<Longrightarrow> length (largestFiles (fold (applyAction fw) as s)) \<le> 5"
  by (rule fold_invariant) (auto intro: applyAction_largest_length)

lemma sortLargest_sorted: "sorted_wrt (\<lambda>a b. f_lines b \<le> f_lines a) (sortLargest fs)"
proof -
  have "sorted (map (\<lambda>f. - int (f_lines f)) (sortLargest fs))"
    unfolding sortLargest_def by (rule sorted_sort_key)
  then show ?thesis by (simp add: sorted_map)
qed

lemma sortLargest_length: "length (sortLargest fs) = length fs"
  by (simp add: sortLargest_def)

text \<open>
  Claim C5. Processing a file keeps the largest-files list at five entries or fewer;
  so it has at most five entries after every update of a scan through a new counter
  (the scan is the fold of its updates), and in the report, where it is moreover sorted
  by line count, largest first.
\<close>

theorem C5_largest_files_bounded_sorted:
  "(length (largestFiles stats) \<le> 5 \<longrightarrow>
      length (largestFiles (processFile framework filePath relativePath r stats)) \<le> 5)
   \<and> CC_scanDirectory framework dirPath basePath dir CodeCounter_new
       = fold (applyAction framework) (walkDirectory dirPath basePath dir) CodeCounter_new
   \<and> length (largestFiles (fold (applyAction framework) (take n (walkDirectory dirPath basePath dir))
        CodeCounter_new)) \<le> 5
   \<and> length (r_largestFiles (generateReport
        (CC_scanDirectory framework dirPath basePath dir CodeCounter_new))) \<le> 5
   \<and> sorted_wrt (\<lambda>a b. f_lines b \<le> f_lines a) (r_largestFiles (generateReport
        (CC_scanDirectory framework dirPath basePath dir CodeCounter_new)))"
proof -
  have new: "length (largestFiles CodeCounter_new) \<le> 5" by (simp add: CodeCounter_new_def)
  have a: "length (largestFiles (fold (applyAction framework) (take n (walkDirectory dirPath basePath dir))
        CodeCounter_new)) \<le> 5"
    using new by (rule fold_largest_length)
  have "length (largestFiles (fold (applyAction framework) (walkDirectory dirPath basePath dir)
        CodeCounter_new)) \<le> 5"
    using new by (rule fold_largest_length)
  then have b: "length (r_largestFiles (generateReport
        (CC_scanDirectory framework dirPath basePath dir CodeCounter_new))) \<le> 5"
    by (simp add: scan_is_fold generateReport_def generateReport_stats_def Let_def sortLargest_length)
  have c: "sorted_wrt (\<lambda>a b. f_lines b \<le> f_lines a) (r_largestFiles (generateReport
        (CC_scanDirectory framework dirPath basePath dir CodeCounter_new)))"
    by (simp add: generateReport_def generateReport_stats_def Let_def sortLargest_sorted)
  show ?thesis using a b c processFile_largest_length scan_is_fold(1) by blast
qed

theorem C5_largest_files_bounded_sorted_witness:
  "length (largestFiles CodeCounter_new) \<le> 5
   \<and> length (largestFiles (processFile None ''/p/a.js'' ''a.js'' (Content ''x'') CodeCounter_new)) \<le> 5"
proof -
  have h: "length (largestFiles CodeCounter_new) \<le> 5" by (simp add: CodeCounter_new_def)
  show ?thesis
    using h C5_largest_files_bounded_sorted [of CodeCounter_new None "''/p/a.js''" "''a.js''" "Content ''x''"] by blast
qed








section \<open>Categories\<close>







lemma split_sep_not_Nil: "split_sep s \<noteq> []"
  by (induction s) (auto split: list.splits)
















section \<open>The detector\<close>

lemma vue_matches_src:
  "frameworkMatches (map ent_name [File ''package.json'' r, Directory ''src'' sub]) pj vue"
  by (simp add: frameworkMatches_def vue_def Let_def)

lemma react_differs: "nextjs \<noteq> react" "nuxtjs \<noteq> react" "vue \<noteq> react"
  by (simp_all add: nextjs_def nuxtjs_def vue_def react_def)

lemma detect_never_react:
  "detectFramework parse (Entries [File ''package.json'' r, Directory ''src'' sub]) \<noteq> Some react"
proof -
  let ?files = "map ent_name [File ''package.json'' r, Directory ''src'' sub]"
  let ?pj = "case readFile [File ''package.json'' r, Directory ''src'' sub] ''package.json'' of
                Content packageContent \<Rightarrow> parse packageContent | ReadError e \<Rightarrow> None"
  have v: "frameworkMatches ?files ?pj vue" by (rule vue_matches_src)
  have "detectFramework parse (Entries [File ''package.json'' r, Directory ''src'' sub])
      = find (frameworkMatches ?files ?pj) FRAMEWORKS"
    by (simp add: detectFramework_def Let_def)
  also have "\<dots> \<in> {Some nextjs, Some nuxtjs, Some vue}"
    using v by (simp add: FRAMEWORKS_def)
  finally show ?thesis using react_differs by auto
qed

lemma detect_react_manifest:
  "detectFramework (\<lambda>c. Some (JObj [(''dependencies'', JObj [(''react'', JStr ''^18.0.0'')])]))
     (Entries [File ''package.json'' (Content content), Directory ''src'' sub]) = Some vue"
  by (simp add: detectFramework_def Let_def FRAMEWORKS_def frameworkMatches_def
      nextjs_def nuxtjs_def vue_def basename_def)

text \<open>
  Claim C1 against the code. A directory whose entries are \<open>package.json\<close>, with
  \<open>react\<close> as its only dependency, and \<open>src\<close> is detected as the Vue.js signature,
  which is not the React one: \<open>vue\<close> comes before \<open>react\<close> in the catalog and lists
  \<open>src\<close> among its directories. Whatever the manifest holds, a directory with these
  two entries is never detected as React.
\<close>

theorem C1_react_manifest_and_src_detected_as_vue:
  "detectFramework (\<lambda>c. Some (JObj [(''dependencies'', JObj [(''react'', JStr ''^18.0.0'')])]))
     (Entries [File ''package.json'' (Content content), Directory ''src'' sub]) = Some vue
   \<and> vue \<noteq> react
   \<and> detectFramework parse (Entries [File ''package.json'' r, Directory ''src'' sub]) \<noteq> Some react"
  using detect_react_manifest detect_never_react react_differs(3) by blast

section \<open>The scanner\<close>

lemma PS_scanDirectory_guard:
  "maxDepth \<le> currentDepth \<Longrightarrow> PS_scanDirectory parse dirPath currentDepth maxDepth dir projects = projects"
  by simp

lemma PS_scanEntries_last_level:
  "maxDepth \<le> currentDepth + 1 \<Longrightarrow>
   PS_scanEntries parse dirPath currentDepth maxDepth entries projects = projects"
proof (induction entries arbitrary: projects)
  case Nil
  show ?case by simp
next
  case (Cons entry rest)
  show ?case
  proof (cases entry)
    case (File name r)
    then show ?thesis using Cons by simp
  next
    case (Directory name sub)
    have "PS_scanDirectory parse (path_join dirPath name) (currentDepth + 1) maxDepth sub projects = projects"
      using Cons.prems by (rule PS_scanDirectory_guard)
    then show ?thesis using Directory Cons by simp
  next
    case (Other name r)
    then show ?thesis using Cons by simp
  qed
qed

lemma PS_is_spec_one_level_less:
  "\<forall>k. maxDepth = Suc k \<and> currentDepth \<le> k \<longrightarrow>
     PS_scanDirectory parse dirPath currentDepth maxDepth dir projects
       = spec_scanDirectory parse dirPath currentDepth k dir projects"
  "\<forall>k. maxDepth = Suc k \<and> currentDepth < k \<longrightarrow>
     PS_scanEntries parse dirPath currentDepth maxDepth entries projects
       = spec_scanEntries parse dirPath currentDepth k entries projects"
proof (induction parse dirPath currentDepth maxDepth dir projects
         and parse dirPath currentDepth maxDepth entries projects
       rule: PS_scanDirectory_PS_scanEntries.induct)
  case (1 parse dirPath currentDepth maxDepth dir projects)
  show ?case
  proof (intro allI impI)
    fix k assume a: "maxDepth = Suc k \<and> currentDepth \<le> k"
    then have g: "\<not> maxDepth \<le> currentDepth" by simp
    show "PS_scanDirectory parse dirPath currentDepth maxDepth dir projects
        = spec_scanDirectory parse dirPath currentDepth k dir projects"
    proof (cases dir)
      case (ReaddirError e)
      then show ?thesis using g by simp
    next
      case (Entries entries)
      let ?recorded = "case detectFramework parse dir of None \<Rightarrow> projects
                 | Some framework \<Rightarrow> projects @
                     [\<lparr>p_name = basename dirPath, p_path = dirPath, p_framework = framework\<rparr>]"
      show ?thesis
      proof (cases "currentDepth < k")
        case True
        have "PS_scanEntries parse dirPath currentDepth maxDepth entries ?recorded
            = spec_scanEntries parse dirPath currentDepth k entries ?recorded"
          using 1 [OF g Entries, rule_format, of k] a True by simp
        then show ?thesis using g Entries True by (simp add: Let_def)
      next
        case False
        then have "maxDepth \<le> currentDepth + 1" using a by simp
        then have "PS_scanEntries parse dirPath currentDepth maxDepth entries ?recorded = ?recorded"
          by (rule PS_scanEntries_last_level)
        then show ?thesis using g Entries False by (simp add: Let_def)
      qed
    qed
  qed
next
  case (2 parse dirPath currentDepth maxDepth projects)
  show ?case by simp
next
  case (3 parse dirPath currentDepth maxDepth name sub rest projects)
  show ?case
  proof (intro allI impI)
    fix k assume a: "maxDepth = Suc k \<and> currentDepth < k"
    let ?ok = "name \<notin> set IGNORE_DIRS \<and> \<not> startsWith name ''.''"
    let ?next = "if ?ok then PS_scanDirectory parse (path_join dirPath name) (currentDepth + 1) maxDepth sub projects
                 else projects"
    let ?snext = "if ?ok then spec_scanDirectory parse (path_join dirPath name) (currentDepth + 1) k sub projects
                 else projects"
    have n: "?next = ?snext"
    proof (cases ?ok)
      case True
      have "PS_scanDirectory parse (path_join dirPath name) (currentDepth + 1) maxDepth sub projects
          = spec_scanDirectory parse (path_join dirPath name) (currentDepth + 1) k sub projects"
        using 3(1) [OF True, rule_format, of k] a by (simp del: PS_scanDirectory.simps spec_scanDirectory.simps)
      then show ?thesis using True by (simp del: PS_scanDirectory.simps spec_scanDirectory.simps)
    next
      case False
      then show ?thesis by (simp only: if_False)
    qed
    have "PS_scanEntries parse dirPath currentDepth maxDepth rest ?next
        = spec_scanEntries parse dirPath currentDepth k rest ?next"
      using 3(2) [rule_format, of k] a by (simp del: PS_scanDirectory.simps spec_scanDirectory.simps)
    then show "PS_scanEntries parse dirPath currentDepth maxDepth (Directory name sub # rest) projects
        = spec_scanEntries parse dirPath currentDepth k (Directory name sub # rest) projects"
      using n by (simp del: PS_scanDirectory.simps spec_scanDirectory.simps)
  qed
next
  case (4 parse dirPath currentDepth maxDepth name r rest projects)
  then show ?case by simp
next
  case (5 parse dirPath currentDepth maxDepth name r rest projects)
  then show ?case by simp
qed

text \<open>
  Claim C2, amended. \<open>scanDirectory\<close> returns at once when the current depth has
  reached \<open>maxDepth\<close>: a directory at depth \<open>maxDepth\<close> is neither listed nor
  examined, and a scan with \<open>maxDepth = 0\<close> finds nothing. The directories that are
  examined are those at depths below \<open>maxDepth\<close>: a scan with \<open>maxDepth = k + 1\<close>
  records what the recursion rule of the specification records with the bound \<open>k\<close>.
\<close>

theorem C2_scan_examines_depths_below_maxDepth:
  "PS_scanDirectory parse dirPath maxDepth maxDepth dir projects = projects
   \<and> scanForProjects parse [] startDir 0 dir = []
   \<and> PS_scanDirectory parse startDir 0 (Suc k) dir projects
       = spec_scanDirectory parse startDir 0 k dir projects"
  using PS_is_spec_one_level_less(1) [of "Suc k" 0 parse startDir dir projects]
  by (simp add: scanForProjects_def)

lemma deep_match: "detectFramework (\<lambda>c. None) (Entries [File ''next.config.js'' (Content [])]) = Some nextjs"
  by (simp add: detectFramework_def FRAMEWORKS_def frameworkMatches_def nextjs_def basename_def)

lemma deep_scan: "scanForProjects (\<lambda>c. None) [] ''/w'' 3
       (Entries [Directory ''a'' (Entries [Directory ''b'' (Entries [Directory ''c''
          (Entries [File ''next.config.js'' (Content [])])])])]) = []"
  by code_simp

lemma deep_spec: "map p_path (spec_scanDirectory (\<lambda>c. None) ''/w'' 0 3
       (Entries [Directory ''a'' (Entries [Directory ''b'' (Entries [Directory ''c''
          (Entries [File ''next.config.js'' (Content [])])])])]) []) = [''/w/a/b/c'']"
  by code_simp

text \<open>
  Claim C2 as stated fails: with \<open>maxDepth = 3\<close>, the directory \<open>/w/a/b/c\<close> is at
  depth 3 and holds \<open>next.config.js\<close>, so it matches the Next.js signature; the scan
  records no project, where the recursion rule of the specification records it.
\<close>

theorem C2_root_at_maxDepth_not_recorded:
  "detectFramework (\<lambda>c. None) (Entries [File ''next.config.js'' (Content [])]) = Some nextjs
   \<and> scanForProjects (\<lambda>c. None) [] ''/w'' 3
       (Entries [Directory ''a'' (Entries [Directory ''b'' (Entries [Directory ''c''
          (Entries [File ''next.config.js'' (Content [])])])])]) = []
   \<and> map p_path (spec_scanDirectory (\<lambda>c. None) ''/w'' 0 3
       (Entries [Directory ''a'' (Entries [Directory ''b'' (Entries [Directory ''c''
          (Entries [File ''next.config.js'' (Content [])])])])]) []) = [''/w/a/b/c'']"
  using deep_match deep_scan deep_spec by blast

section \<open>Repeated scans\<close>

lemma PS_scan_appends:
  "\<forall>ps. PS_scanDirectory parse dirPath currentDepth maxDepth dir ps
         = ps @ PS_scanDirectory parse dirPath currentDepth maxDepth dir []"
  "\<forall>ps. PS_scanEntries parse dirPath currentDepth maxDepth entries ps
         = ps @ PS_scanEntries parse dirPath currentDepth maxDepth entries []"
proof (induction parse dirPath currentDepth maxDepth dir "projects :: project list"
         and parse dirPath currentDepth maxDepth entries "projects :: project list"
       rule: PS_scanDirectory_PS_scanEntries.induct)
  case (1 parse dirPath currentDepth maxDepth dir projects)
  show ?case
  proof (cases "maxDepth \<le> currentDepth")
    case True
    then show ?thesis by simp
  next
    case g: False
    show ?thesis
    proof (cases dir)
      case (ReaddirError e)
      then show ?thesis by simp
    next
      case (Entries entries)
      note ih = 1 [OF g Entries, rule_format]
      show ?thesis
      proof
        fix ps
        let ?rec = "\<lambda>qs. case detectFramework parse dir of None \<Rightarrow> qs
                 | Some framework \<Rightarrow> qs @
                     [\<lparr>p_name = basename dirPath, p_path = dirPath, p_framework = framework\<rparr>]"
        have r: "?rec ps = ps @ ?rec []" by (cases "detectFramework parse dir") simp_all
        have "PS_scanEntries parse dirPath currentDepth maxDepth entries (?rec ps)
            = ?rec ps @ PS_scanEntries parse dirPath currentDepth maxDepth entries []"
          by (rule ih)
        moreover have "PS_scanEntries parse dirPath currentDepth maxDepth entries (?rec [])
            = ?rec [] @ PS_scanEntries parse dirPath currentDepth maxDepth entries []"
          by (rule ih)
        ultimately have "PS_scanEntries parse dirPath currentDepth maxDepth entries (?rec ps)
            = ps @ PS_scanEntries parse dirPath currentDepth maxDepth entries (?rec [])"
          using r by (metis append_assoc)
        then show "PS_scanDirectory parse dirPath currentDepth maxDepth dir ps
            = ps @ PS_scanDirectory parse dirPath currentDepth maxDepth dir []"
          using g Entries by simp
      qed
    qed
  qed
next
  case (2 parse dirPath currentDepth maxDepth projects)
  show ?case by simp
next
  case (3 parse dirPath currentDepth maxDepth name sub rest projects)
  note rest = 3(2) [rule_format]
  show ?case
  proof (cases "name \<notin> set IGNORE_DIRS \<and> \<not> startsWith name ''.''")
    case True
    note sub = 3(1) [OF True, rule_format]
    show ?thesis
    proof
      fix ps
      let ?d = "\<lambda>qs. PS_scanDirectory parse (path_join dirPath name) (currentDepth + 1) maxDepth sub qs"
      have "PS_scanEntries parse dirPath currentDepth maxDepth rest (?d ps)
          = ?d ps @ PS_scanEntries parse dirPath currentDepth maxDepth rest []"
        by (rule rest)
      moreover have "PS_scanEntries parse dirPath currentDepth maxDepth rest (?d [])
          = ?d [] @ PS_scanEntries parse dirPath currentDepth maxDepth rest []"
        by (rule rest)
      moreover have "?d ps = ps @ ?d []" by (rule sub)
      ultimately have "PS_scanEntries parse dirPath currentDepth maxDepth rest (?d ps)
          = ps @ PS_scanEntries parse dirPath currentDepth maxDepth rest (?d [])"
        by (metis append_assoc)
      then show "PS_scanEntries parse dirPath currentDepth maxDepth (Directory name sub # rest) ps
          = ps @ PS_scanEntries parse dirPath currentDepth maxDepth (Directory name sub # rest) []"
        using True by (simp del: PS_scanDirectory.simps)
    qed
  next
    case False
    show ?thesis
    proof
      fix ps
      have "PS_scanEntries parse dirPath currentDepth maxDepth rest ps
          = ps @ PS_scanEntries parse dirPath currentDepth maxDepth rest []"
        by (rule rest)
      then show "PS_scanEntries parse dirPath currentDepth maxDepth (Directory name sub # rest) ps
          = ps @ PS_scanEntries parse dirPath currentDepth maxDepth (Directory name sub # rest) []"
        using False by (auto simp del: PS_scanDirectory.simps)
    qed
  qed
next
  case (4 parse dirPath currentDepth maxDepth name r rest projects)
  show ?case
  proof
    fix ps
    have "PS_scanEntries parse dirPath currentDepth maxDepth rest ps
        = ps @ PS_scanEntries parse dirPath currentDepth maxDepth rest []"
      by (rule 4 [rule_format])
    then show "PS_scanEntries parse dirPath currentDepth maxDepth (File name r # rest) ps
        = ps @ PS_scanEntries parse dirPath currentDepth maxDepth (File name r # rest) []"
      by (simp only: PS_scanEntries.simps)
  qed
next
  case (5 parse dirPath currentDepth maxDepth name r rest projects)
  show ?case
  proof
    fix ps
    have "PS_scanEntries parse dirPath currentDepth maxDepth rest ps
        = ps @ PS_scanEntries parse dirPath currentDepth maxDepth rest []"
      by (rule 5 [rule_format])
    then show "PS_scanEntries parse dirPath currentDepth maxDepth (Other name r # rest) ps
        = ps @ PS_scanEntries parse dirPath currentDepth maxDepth (Other name r # rest) []"
      by (simp only: PS_scanEntries.simps)
  qed
qed

lemma scanForProjects_twice:
  "scanForProjects parse (scanForProjects parse [] startDir maxDepth dir) startDir maxDepth dir
     = scanForProjects parse [] startDir maxDepth dir @ scanForProjects parse [] startDir maxDepth dir"
proof -
  let ?f = "PS_scanDirectory parse startDir 0 maxDepth dir []"
  have a: "scanForProjects parse [] startDir maxDepth dir = ?f"
    by (simp add: scanForProjects_def Let_def del: PS_scanDirectory.simps)
  have "PS_scanDirectory parse startDir 0 maxDepth dir ?f = ?f @ ?f"
    using PS_scan_appends(1) [rule_format, of parse startDir 0 maxDepth dir ?f] .
  then show ?thesis unfolding a
    by (simp add: scanForProjects_def Let_def del: PS_scanDirectory.simps)
qed

lemma applyAction_sameGrowth:
  "sameGrowth s (applyAction fw a s) s' (applyAction fw a s')"
proof (cases a)
  case (Process p rel r)
  then show ?thesis by (cases r) (simp_all add: sameGrowth_def processFile_def Let_def)
next
  case (ScanError d m)
  then show ?thesis by (simp add: sameGrowth_def)
qed

lemma fold_sameGrowth:
  "sameGrowth s (fold (applyAction fw) as s) s' (fold (applyAction fw) as s')"
proof (induction as arbitrary: s s')
  case Nil
  show ?case by (simp add: sameGrowth_def)
next
  case (Cons a as)
  show ?case
    using Cons.IH [of "applyAction fw a s" "applyAction fw a s'"] applyAction_sameGrowth [of s fw a s']
    by (simp add: sameGrowth_def)
qed

lemma applyAction_noFileNoLines: "noFileNoLines t \<Longrightarrow> noFileNoLines (applyAction fw a t)"
proof (cases a)
  case (Process p rel r)
  assume "noFileNoLines t"
  then show ?thesis using Process
    by (cases r) (simp_all add: noFileNoLines_def processFile_def Let_def)
next
  case (ScanError d m)
  assume "noFileNoLines t"
  then show ?thesis using ScanError by (simp add: noFileNoLines_def)
qed

text \<open>
  Claim C3, amended. Both entry points keep their results in the instance between
  calls. A second scan of the same tree through the same counter, after the first
  report, adds the tree's contribution again: each of the five totals doubles, and the summary of the report
  stays the same exactly when the first scan counted no file. A second scan through
  the same project scanner returns every project twice.
\<close>

theorem C3_second_scan_doubles_totals:
  "(let once = CC_scanDirectory framework dirPath basePath dir CodeCounter_new;
        twice = CC_scanDirectory framework dirPath basePath dir (generateReport_stats once)
    in totalFiles twice = 2 * totalFiles once
     \<and> totalLines twice = 2 * totalLines once
     \<and> totalCodeLines twice = 2 * totalCodeLines once
     \<and> totalBlankLines twice = 2 * totalBlankLines once
     \<and> totalCommentLines twice = 2 * totalCommentLines once
     \<and> (r_summary (generateReport twice) = r_summary (generateReport once)) = (totalFiles once = 0))
   \<and> scanForProjects parse (scanForProjects parse [] startDir maxDepth dir) startDir maxDepth dir
       = scanForProjects parse [] startDir maxDepth dir @ scanForProjects parse [] startDir maxDepth dir"
proof -
  define once where "once = CC_scanDirectory framework dirPath basePath dir CodeCounter_new"
  define twice where "twice = CC_scanDirectory framework dirPath basePath dir (generateReport_stats once)"
  have g: "sameGrowth (generateReport_stats once) twice CodeCounter_new once"
    unfolding once_def twice_def scan_is_fold by (rule fold_sameGrowth)
  have d: "totalFiles twice = 2 * totalFiles once" "totalLines twice = 2 * totalLines once"
     "totalCodeLines twice = 2 * totalCodeLines once" "totalBlankLines twice = 2 * totalBlankLines once"
     "totalCommentLines twice = 2 * totalCommentLines once"
    using g by (simp_all add: sameGrowth_def CodeCounter_new_def generateReport_stats_def)
  have "noFileNoLines CodeCounter_new" by (simp add: noFileNoLines_def CodeCounter_new_def)
  then have "noFileNoLines once"
    unfolding once_def scan_is_fold
    by (rule fold_invariant) (auto intro: applyAction_noFileNoLines)
  then have z: "totalFiles once = 0 \<Longrightarrow>
     totalLines once = 0 \<and> totalCodeLines once = 0 \<and> totalBlankLines once = 0 \<and> totalCommentLines once = 0"
    by (simp add: noFileNoLines_def)
  have e: "(r_summary (generateReport twice) = r_summary (generateReport once)) = (totalFiles once = 0)"
  proof (cases "totalFiles once = 0")
    case True
    then show ?thesis using z d
      by (simp add: generateReport_def generateReport_stats_def Let_def)
  next
    case False
    then show ?thesis using d(1)
      by (auto simp: generateReport_def generateReport_stats_def Let_def)
  qed
  have "let once = CC_scanDirectory framework dirPath basePath dir CodeCounter_new;
            twice = CC_scanDirectory framework dirPath basePath dir (generateReport_stats once)
        in totalFiles twice = 2 * totalFiles once
         \<and> totalLines twice = 2 * totalLines once
         \<and> totalCodeLines twice = 2 * totalCodeLines once
         \<and> totalBlankLines twice = 2 * totalBlankLines once
         \<and> totalCommentLines twice = 2 * totalCommentLines once
         \<and> (r_summary (generateReport twice) = r_summary (generateReport once)) = (totalFiles once = 0)"
    using d e by (simp add: Let_def once_def twice_def)
  then show ?thesis using scanForProjects_twice [of parse startDir maxDepth dir] by blast
qed

lemma one_file_once:
  "totalFiles (CC_scanDirectory None ''/p'' ''/p'' (Entries [File ''a.js'' (Content ''x'')])
     CodeCounter_new) = 1"
  by code_simp

lemma one_file_twice:
  "totalFiles (CC_scanDirectory None ''/p'' ''/p'' (Entries [File ''a.js'' (Content ''x'')])
     (generateReport_stats
        (CC_scanDirectory None ''/p'' ''/p'' (Entries [File ''a.js'' (Content ''x'')])
           CodeCounter_new))) = 2"
  by code_simp

text \<open>
  Claim C3 as stated fails: for a directory with the one file \<open>a.js\<close>, the
  report after a second scan through the same counter has another summary than the
  report after the first.
\<close>

theorem C3_second_scan_changes_summary:
  "r_summary (generateReport
     (CC_scanDirectory None ''/p'' ''/p'' (Entries [File ''a.js'' (Content ''x'')])
        (generateReport_stats
           (CC_scanDirectory None ''/p'' ''/p'' (Entries [File ''a.js'' (Content ''x'')])
              CodeCounter_new))))
   \<noteq> r_summary (generateReport
     (CC_scanDirectory None ''/p'' ''/p'' (Entries [File ''a.js'' (Content ''x'')])
        CodeCounter_new))"
proof
  assume "r_summary (generateReport
     (CC_scanDirectory None ''/p'' ''/p'' (Entries [File ''a.js'' (Content ''x'')])
        (generateReport_stats
           (CC_scanDirectory None ''/p'' ''/p'' (Entries [File ''a.js'' (Content ''x'')])
              CodeCounter_new))))
   = r_summary (generateReport
     (CC_scanDirectory None ''/p'' ''/p'' (Entries [File ''a.js'' (Content ''x'')])
        CodeCounter_new))"
  then have "s_totalFiles (r_summary (generateReport
     (CC_scanDirectory None ''/p'' ''/p'' (Entries [File ''a.js'' (Content ''x'')])
        (generateReport_stats
           (CC_scanDirectory None ''/p'' ''/p'' (Entries [File ''a.js'' (Content ''x'')])
              CodeCounter_new)))))
   = s_totalFiles (r_summary (generateReport
     (CC_scanDirectory None ''/p'' ''/p'' (Entries [File ''a.js'' (Content ''x'')])
        CodeCounter_new)))"
    by simp
  then show False
    using one_file_once one_file_twice
    by (simp add: generateReport_def generateReport_stats_def Let_def)
qed

end
